theory Spec2Isabelle
  imports Complex_Main "HOL-Library.Word"
begin

unbundle bit_operations_syntax

section \<open>Byte arrays, exceptions and error values\<close>

text \<open>
  A \<^verbatim>\<open>Uint8Array\<close> is a list of bytes. The functions of the library return their
  errors as values (\<^verbatim>\<open>[value, err]\<close> with \<^verbatim>\<open>err: string | null\<close>); what JavaScript
  throws is kept apart, as the left summand of a sum type.
\<close>

type_synonym u8 = "8 word"
type_synonym Uint8Array = "u8 list"
type_synonym Err = "string option"

datatype exn = RangeError | TypeError

definition bindE :: "exn + 'a \<Rightarrow> ('a \<Rightarrow> exn + 'b) \<Rightarrow> exn + 'b" where
  "bindE m f = (case m of Inl e \<Rightarrow> Inl e | Inr x \<Rightarrow> f x)"

text \<open>\<^verbatim>\<open>new Uint8Array(n)\<close> is filled with zeros.\<close>

definition newUint8Array :: "nat \<Rightarrow> Uint8Array" where
  "newUint8Array n = replicate n 0"

text \<open>
  \<^verbatim>\<open>target.set(src, offset)\<close> copies \<^verbatim>\<open>src\<close> into \<^verbatim>\<open>target\<close> from \<^verbatim>\<open>offset\<close> on and
  throws a RangeError when \<^verbatim>\<open>src\<close> does not fit.
\<close>

definition u8set :: "Uint8Array \<Rightarrow> Uint8Array \<Rightarrow> nat \<Rightarrow> exn + Uint8Array" where
  "u8set target src offset =
     (if offset + length src > length target then Inl RangeError
      else Inr (take offset target @ src @ drop (offset + length src) target))"

text \<open>\<^verbatim>\<open>"e".charCodeAt(0)\<close> stored into a byte array.\<close>

definition charCode :: "char \<Rightarrow> u8" where
  "charCode c = of_nat (of_char c)"

section \<open>Encoding helpers and primitives that the sources import\<close>

text \<open>
  Modelled from the spec: \<^verbatim>\<open>addContextToErr\<close> of \<^verbatim>\<open>err.ts\<close>, which is not among the
  sources. The spec has errors bubble up with a short prefix naming the operation that
  failed, the original text kept.
\<close>

definition addContextToErr :: "string \<Rightarrow> string \<Rightarrow> string" where
  "addContextToErr err context = context @ '': '' @ err"

text \<open>
  Modelled from the spec: \<^verbatim>\<open>encodeU64\<close> of \<^verbatim>\<open>encoding.ts\<close>, which is not among the
  sources: eight bytes, little-endian, for \<open>0 \<le> n < 2^64\<close>, and an error value for any
  other bigint.
\<close>

definition le64 :: "nat \<Rightarrow> Uint8Array" where
  "le64 n = map (\<lambda>i. of_nat (n div 256 ^ i)) [0..<8]"

definition encodeU64 :: "int \<Rightarrow> Uint8Array \<times> Err" where
  "encodeU64 num =
     (if num < 0 then ([], Some ''expected a positive integer'')
      else if num \<ge> 2 ^ 64 then ([], Some ''expected a number no larger than a uint64'')
      else (le64 (nat num), None))"

text \<open>
  Modelled from the spec: \<^verbatim>\<open>encodePrefixedBytes\<close> of \<^verbatim>\<open>encoding.ts\<close>, which is not
  among the sources: the encoded length of the bytes, then the bytes.
\<close>

definition encodePrefixedBytes :: "Uint8Array \<Rightarrow> Uint8Array \<times> Err" where
  "encodePrefixedBytes bytes = (le64 (length bytes) @ bytes, None)"

text \<open>
  The hash functions and the signature scheme (\<^verbatim>\<open>blake2b\<close>, \<^verbatim>\<open>sha512\<close>,
  \<^verbatim>\<open>ed25519Sign\<close>, \<^verbatim>\<open>ed25519Verify\<close>, \<^verbatim>\<open>ed25519KeypairFromEntropy\<close>) are black boxes
  of the library; every function below takes the ones it calls as parameters.
\<close>

record Ed25519Keypair =
  publicKey :: Uint8Array
  secretKey :: Uint8Array

type_synonym hashfn = "Uint8Array \<Rightarrow> Uint8Array"
type_synonym signfn = "Uint8Array \<Rightarrow> Uint8Array \<Rightarrow> Uint8Array \<times> Err"
type_synonym verifyfn = "Uint8Array \<Rightarrow> Uint8Array \<Rightarrow> Uint8Array \<Rightarrow> bool"
type_synonym keypairfn = "Uint8Array \<Rightarrow> Ed25519Keypair \<times> Err"

section \<open>Registry entries (\<^verbatim>\<open>libskynet/src/registry.ts\<close>)\<close>

definition computeRegistrySignature ::
  "hashfn \<Rightarrow> signfn \<Rightarrow> Uint8Array \<Rightarrow> Uint8Array \<Rightarrow> Uint8Array \<Rightarrow> int
     \<Rightarrow> exn + (Uint8Array \<times> Err)" where
  "computeRegistrySignature blake2b ed25519Sign secKey dataKey data revision =
     (if length data > 86 then Inr ([], Some ''registry data must be at most 86 bytes'')
      else case encodePrefixedBytes data of
        (encodedData, Some errEPB) \<Rightarrow>
          Inr ([], Some (addContextToErr errEPB ''unable to encode provided registry data''))
      | (encodedData, None) \<Rightarrow>
         (case encodeU64 revision of
            (encodedRevision, Some errEU64) \<Rightarrow>
              Inr ([], Some (addContextToErr errEU64 ''unable to encode the revision number''))
          | (encodedRevision, None) \<Rightarrow>
              bindE (u8set (newUint8Array (32 + 8 + length data + 8)) dataKey 0) (\<lambda>b1.
              bindE (u8set b1 encodedData 32) (\<lambda>b2.
              bindE (u8set b2 encodedRevision (32 + 8 + length data)) (\<lambda>dataToSign.
                let sigHash = blake2b dataToSign in
                case ed25519Sign sigHash secKey of
                  (sig, Some errS) \<Rightarrow>
                    Inr ([], Some (addContextToErr errS ''unable to sign registry entry''))
                | (sig, None) \<Rightarrow> Inr (sig, None))))))"

definition verifyRegistrySignature ::
  "hashfn \<Rightarrow> verifyfn \<Rightarrow> Uint8Array \<Rightarrow> Uint8Array \<Rightarrow> Uint8Array \<Rightarrow> int \<Rightarrow> Uint8Array
     \<Rightarrow> exn + bool" where
  "verifyRegistrySignature blake2b ed25519Verify pubkey datakey data revision sig =
     (case encodePrefixedBytes data of
        (encodedData, Some errEPB) \<Rightarrow> Inr False
      | (encodedData, None) \<Rightarrow>
         (case encodeU64 revision of
            (encodedRevision, Some errU64) \<Rightarrow> Inr False
          | (encodedRevision, None) \<Rightarrow>
              bindE (u8set (newUint8Array (32 + 8 + length data + 8)) datakey 0) (\<lambda>b1.
              bindE (u8set b1 encodedData 32) (\<lambda>b2.
              bindE (u8set b2 encodedRevision (32 + 8 + length data)) (\<lambda>dataToVerify.
                let sigHash = blake2b dataToVerify in
                Inr (ed25519Verify sigHash sig pubkey))))))"

text \<open>
  The buffer \<^verbatim>\<open>encoding\<close> of \<^verbatim>\<open>deriveRegistryEntryID\<close>: 16 + 8 + 32 + 32 zero bytes,
  the seven characters of the specifier written at the front, then the three
  \<^verbatim>\<open>set\<close> calls.
\<close>

definition registryEntryEncoding ::
  "Uint8Array \<Rightarrow> Uint8Array \<Rightarrow> Uint8Array \<Rightarrow> exn + Uint8Array" where
  "registryEntryEncoding encodedLen pubkey datakey =
     (let encoding = (newUint8Array (16 + 8 + 32 + 32))
            [0 := charCode CHR ''e'', 1 := charCode CHR ''d'', 2 := charCode CHR ''2'',
             3 := charCode CHR ''5'', 4 := charCode CHR ''5'', 5 := charCode CHR ''1'',
             6 := charCode CHR ''9'']
      in bindE (u8set encoding encodedLen 16) (\<lambda>e1.
         bindE (u8set e1 pubkey (16 + 8)) (\<lambda>e2.
         u8set e2 datakey (16 + 8 + 32))))"

definition deriveRegistryEntryID ::
  "hashfn \<Rightarrow> Uint8Array \<Rightarrow> Uint8Array \<Rightarrow> exn + (Uint8Array \<times> Err)" where
  "deriveRegistryEntryID blake2b pubkey datakey =
     (if length pubkey \<noteq> 32 then Inr ([], Some ''pubkey is invalid, length is wrong'')
      else if length datakey \<noteq> 32
        then Inr ([], Some ''datakey is not a valid hash, length is wrong'')
      else case encodeU64 32 of
        (encodedLen, Some errU64) \<Rightarrow>
          Inr ([], Some (addContextToErr errU64 ''unable to encode pubkey length''))
      | (encodedLen, None) \<Rightarrow>
          bindE (registryEntryEncoding encodedLen pubkey datakey) (\<lambda>encoding.
            let id = blake2b encoding in Inr (id, None)))"

text \<open>
  The preimage of the entry ID as the specification words it: the seven bytes of the
  specifier, the encoded 32, the public key, the datakey.
\<close>

definition specEntryIDPreimage :: "Uint8Array \<Rightarrow> Uint8Array \<Rightarrow> Uint8Array" where
  "specEntryIDPreimage pubkey datakey =
     map charCode ''ed25519'' @ fst (encodeU64 32) @ pubkey @ datakey"

subsection \<open>Tagged keys\<close>

text \<open>
  A JavaScript string is a sequence of UTF-16 code units and \<^verbatim>\<open>length\<close> counts them.
  \<^verbatim>\<open>new TextEncoder().encode\<close> gives the UTF-8 bytes of its code points, a surrogate
  pair read as one code point and a lone surrogate as U+FFFD.
\<close>

type_synonym jsstring = "16 word list"

definition utf8 :: "nat \<Rightarrow> Uint8Array" where
  "utf8 c =
     (if c < 0x80 then [of_nat c]
      else if c < 0x800 then [of_nat (0xC0 + c div 64), of_nat (0x80 + c mod 64)]
      else if c < 0x10000 then
        [of_nat (0xE0 + c div 4096), of_nat (0x80 + c div 64 mod 64), of_nat (0x80 + c mod 64)]
      else
        [of_nat (0xF0 + c div 262144), of_nat (0x80 + c div 4096 mod 64),
         of_nat (0x80 + c div 64 mod 64), of_nat (0x80 + c mod 64)])"

fun TextEncoder_encode :: "jsstring \<Rightarrow> Uint8Array" where
  "TextEncoder_encode [] = []"
| "TextEncoder_encode [c] =
     (if 0xD800 \<le> unat c \<and> unat c < 0xE000 then utf8 0xFFFD else utf8 (unat c))"
| "TextEncoder_encode (c # d # ds) =
     (if 0xD800 \<le> unat c \<and> unat c < 0xDC00 \<and> 0xDC00 \<le> unat d \<and> unat d < 0xE000
        then utf8 (0x10000 + (unat c - 0xD800) * 1024 + (unat d - 0xDC00))
               @ TextEncoder_encode ds
      else if 0xD800 \<le> unat c \<and> unat c < 0xE000
        then utf8 0xFFFD @ TextEncoder_encode (d # ds)
      else utf8 (unat c) @ TextEncoder_encode (d # ds))"

definition SEED_BYTES :: nat where
  "SEED_BYTES = 16"

text \<open>
  The buffer \<^verbatim>\<open>datakeyInput\<close> of \<^verbatim>\<open>taggedRegistryEntryKeys\<close>. The length of the
  keypair tag is stored into a one-byte array, which keeps it modulo 256.
\<close>

definition datakeyInput :: "Uint8Array \<Rightarrow> Uint8Array \<Rightarrow> Uint8Array \<Rightarrow> exn + Uint8Array" where
  "datakeyInput seed keypairTag datakeyTag =
     (let keypairLen = (newUint8Array 1)[0 := of_nat (length keypairTag)]
      in bindE (u8set (newUint8Array (length seed + 1 + length keypairTag + length datakeyTag))
                  seed 0) (\<lambda>d1.
         bindE (u8set d1 keypairLen (length seed)) (\<lambda>d2.
         bindE (u8set d2 keypairTag (length seed + 1)) (\<lambda>d3.
         u8set d3 datakeyTag (length seed + 1 + length keypairTag)))))"

definition taggedRegistryEntryKeys ::
  "hashfn \<Rightarrow> keypairfn \<Rightarrow> Uint8Array \<Rightarrow> jsstring \<Rightarrow> jsstring option
     \<Rightarrow> exn + (Ed25519Keypair option \<times> Uint8Array \<times> Err)" where
  "taggedRegistryEntryKeys sha512 ed25519KeypairFromEntropy seed keypairTagStr datakeyTagStr0 =
     (if length seed \<noteq> SEED_BYTES then Inr (None, [], Some ''seed has the wrong length'')
      else if length keypairTagStr > 255
        then Inr (None, [], Some ''keypairTag must be less than 256 characters'')
      else
        let datakeyTagStr = (case datakeyTagStr0 of None \<Rightarrow> [] | Some s \<Rightarrow> s);
            keypairTag = TextEncoder_encode keypairTagStr
        in bindE (u8set (newUint8Array (length keypairTag + length seed)) seed 0) (\<lambda>e1.
           bindE (u8set e1 keypairTag (length seed)) (\<lambda>entropyInput.
             let keypairEntropy = sha512 entropyInput;
                 datakeyTag = TextEncoder_encode datakeyTagStr
             in bindE (datakeyInput seed keypairTag datakeyTag) (\<lambda>dkInput.
                  let datakeyEntropy = sha512 dkInput in
                  case ed25519KeypairFromEntropy (take 32 keypairEntropy) of
                    (keypair, Some errKPFE) \<Rightarrow>
                      Inr (None, [], Some (addContextToErr errKPFE ''unable to derive keypair''))
                  | (keypair, None) \<Rightarrow>
                      let datakey = take 32 datakeyEntropy in
                      Inr (Some keypair, datakey, None)))))"

section \<open>JavaScript strings\<close>

text \<open>
  \<^verbatim>\<open>s.split(sep)\<close> with a one-character separator: the pieces between the
  separators, the empty string giving one empty piece.
\<close>

fun split :: "char \<Rightarrow> string \<Rightarrow> string list" where
  "split sep [] = [[]]"
| "split sep (c # cs) =
     (if c = sep then [] # split sep cs
      else (case split sep cs of [] \<Rightarrow> [[c]] | w # ws \<Rightarrow> (c # w) # ws))"

definition startsWith :: "string \<Rightarrow> string \<Rightarrow> bool" where
  "startsWith s p = (take (length p) s = p)"

text \<open>The pieces of a split, put together again with the separator between them.\<close>

fun joinWith :: "char \<Rightarrow> string list \<Rightarrow> string" where
  "joinWith sep [] = []"
| "joinWith sep [w] = w"
| "joinWith sep (w # v # ws) = w @ sep # joinWith sep (v # ws)"

text \<open>A number inside a template literal.\<close>

function showNat :: "nat \<Rightarrow> string" where
  "showNat n = (if n < 10 then [char_of (48 + n)]
                else showNat (n div 10) @ [char_of (48 + n mod 10)])"
  by pat_completeness auto
termination
  by (relation "measure id") auto

section \<open>Skyfile paths (\<^verbatim>\<open>validateSkyfilePath\<close>)\<close>

text \<open>The loop over \<^verbatim>\<open>pathElems\<close>: the first offending element decides.\<close>

fun pathElemsLoop :: "string list \<Rightarrow> string option" where
  "pathElemsLoop [] = None"
| "pathElemsLoop (e # es) =
     (if e = ''.'' then Some ''path cannot have a . element''
      else if e = ''..'' then Some ''path cannot have a .. element''
      else if e = [] then Some ''path cannot have an empty element, cannot contain //''
      else pathElemsLoop es)"

definition validateSkyfilePath :: "string \<Rightarrow> string option" where
  "validateSkyfilePath path =
     (if path = [] then Some ''path cannot be blank''
      else if path = ''..'' then Some ''path cannot be ..''
      else if path = ''.'' then Some ''path cannot be .''
      else if startsWith path ''/'' then Some ''metdata.Filename cannot start with /''
      else if startsWith path ''../'' then Some ''metdata.Filename cannot start with ../''
      else if startsWith path ''./'' then Some ''metdata.Filename cannot start with ./''
      else let pathElems = split CHR ''/'' path in pathElemsLoop pathElems)"

section \<open>Seed phrases (\<^verbatim>\<open>libskynet/src/seed.ts\<close>)\<close>

text \<open>
  The dictionary, the length of the prefix that identifies a word in it
  (\<^verbatim>\<open>DICTIONARY_UNIQUE_PREFIX\<close>) and \<^verbatim>\<open>sha512\<close> are imported by the source file and are
  parameters here. Indexing an array out of range gives \<^verbatim>\<open>undefined\<close>, which is
  \<open>None\<close>.
\<close>

definition SEED_ENTROPY_WORDS :: nat where
  "SEED_ENTROPY_WORDS = 13"

definition elemAt :: "'a list \<Rightarrow> nat \<Rightarrow> 'a option" where
  "elemAt xs i = (if i < length xs then Some (xs ! i) else None)"

text \<open>
  The two checksum words. A shift of \<^verbatim>\<open>undefined\<close> is 0; adding \<^verbatim>\<open>undefined\<close> gives NaN,
  which the shift that follows turns into 0. The test of the constant
  \<^verbatim>\<open>SEED_CHECKSUM_WORDS !== 2\<close> never holds and is left out.
\<close>

definition seedToChecksumWords ::
  "string list \<Rightarrow> hashfn \<Rightarrow> Uint8Array \<Rightarrow> string option \<times> string option \<times> Err" where
  "seedToChecksumWords dictionary sha512 seed =
     (if length seed \<noteq> SEED_BYTES
        then (Some [], Some [], Some (''seed has the wrong length: '' @ showNat (length seed)))
      else
        let h = sha512 seed;
            h0 = (case elemAt h 0 of None \<Rightarrow> 0 | Some b \<Rightarrow> unat b);
            h2 = (case elemAt h 2 of None \<Rightarrow> 0 | Some b \<Rightarrow> unat b);
            word1 = (case elemAt h 1 of None \<Rightarrow> 0 | Some b \<Rightarrow> (h0 * 2 ^ 8 + unat b) div 2 ^ 6);
            word2 = (case elemAt h 1 of None \<Rightarrow> h2 * 2 ^ 2 div 2 ^ 6
                     | Some b \<Rightarrow> ((unat b * 2 ^ 10) mod 2 ^ 16 + h2 * 2 ^ 2) div 2 ^ 6)
        in (elemAt dictionary word1, elemAt dictionary word2, None))"

text \<open>The search of the dictionary for a word, by prefix; \<open>-1\<close> when there is none.\<close>

fun findWord :: "nat \<Rightarrow> string \<Rightarrow> string list \<Rightarrow> nat \<Rightarrow> int" where
  "findWord uniquePrefix w [] j = -1"
| "findWord uniquePrefix w (d # ds) j =
     (if take uniquePrefix w = take uniquePrefix d then int j
      else findWord uniquePrefix w ds (Suc j))"

text \<open>
  The loop over the bits of one word. The state is the byte array, \<^verbatim>\<open>curByte\<close> and
  \<^verbatim>\<open>curBit\<close>. A write beyond the end of a typed array is ignored, as a list update is.
\<close>

function wordBitsLoop ::
  "int \<Rightarrow> nat \<Rightarrow> nat \<Rightarrow> Uint8Array \<times> nat \<times> nat \<Rightarrow> Uint8Array \<times> nat \<times> nat" where
  "wordBitsLoop word wordBits j (bytes, curByte, curBit) =
     (if j < wordBits then
        let bitSet = bit word (wordBits - j - 1);
            bytes' = (if bitSet
                      then bytes[curByte := (bytes ! curByte) OR push_bit (8 - curBit - 1) 1]
                      else bytes);
            curBit' = curBit + 1
        in if curBit' \<ge> 8 then wordBitsLoop word wordBits (j + 1) (bytes', curByte + 1, 0)
           else wordBitsLoop word wordBits (j + 1) (bytes', curByte, curBit')
      else (bytes, curByte, curBit))"
  by pat_completeness auto
termination
  by (relation "measure (\<lambda>(word, wordBits, j, st). wordBits - j)") auto

function seedWordsLoop ::
  "string list \<Rightarrow> nat \<Rightarrow> string list \<Rightarrow> nat \<Rightarrow> Uint8Array \<times> nat \<times> nat \<Rightarrow> Uint8Array \<times> Err"
  where
  "seedWordsLoop dictionary uniquePrefix seedWords i st =
     (if i < SEED_ENTROPY_WORDS then
        let word = findWord uniquePrefix (seedWords ! i) dictionary 0 in
        if word = -1 then
          ([], Some (''word '' @ [char_of (39::nat)] @ seedWords ! i @ [char_of (39::nat)]
                      @ '' at index '' @ showNat i @ '' not found in dictionary''))
        else
          let wordBits = (if i = SEED_ENTROPY_WORDS - 1 then 8 else 10)
          in seedWordsLoop dictionary uniquePrefix seedWords (i + 1)
               (wordBitsLoop word wordBits 0 st)
      else (fst st, None))"
  by pat_completeness auto
termination
  by (relation "measure (\<lambda>(dictionary, uniquePrefix, seedWords, i, st). SEED_ENTROPY_WORDS - i)")
     auto

definition seedWordsToSeed :: "string list \<Rightarrow> nat \<Rightarrow> string list \<Rightarrow> Uint8Array \<times> Err" where
  "seedWordsToSeed dictionary uniquePrefix seedWords =
     (if length seedWords \<noteq> SEED_ENTROPY_WORDS
        then ([], Some (''Seed words should have length '' @ showNat SEED_ENTROPY_WORDS
                         @ '' but has length '' @ showNat (length seedWords)))
      else seedWordsLoop dictionary uniquePrefix seedWords 0 (newUint8Array SEED_BYTES, 0, 0))"

text \<open>
  The helper \<^verbatim>\<open>prefix\<close> of \<^verbatim>\<open>validSeedPhrase\<close> calls \<^verbatim>\<open>s.slice\<close>; on \<^verbatim>\<open>undefined\<close> that
  is a TypeError.
\<close>

definition prefix :: "nat \<Rightarrow> string option \<Rightarrow> exn + string" where
  "prefix uniquePrefix s =
     (case s of None \<Rightarrow> Inl TypeError | Some str \<Rightarrow> Inr (take uniquePrefix str))"

definition validSeedPhrase ::
  "string list \<Rightarrow> nat \<Rightarrow> hashfn \<Rightarrow> string \<Rightarrow> exn + (Uint8Array \<times> Err)" where
  "validSeedPhrase dictionary uniquePrefix sha512 seedPhrase =
     (let seedWordsAndChecksum = split CHR '' '' seedPhrase;
          seedWords = take SEED_ENTROPY_WORDS seedWordsAndChecksum;
          checksumOne = elemAt seedWordsAndChecksum SEED_ENTROPY_WORDS;
          checksumTwo = elemAt seedWordsAndChecksum (SEED_ENTROPY_WORDS + 1)
      in case seedWordsToSeed dictionary uniquePrefix seedWords of
           (seed, Some err1) \<Rightarrow> Inr ([], Some (addContextToErr err1 ''unable to parse seed phrase''))
         | (seed, None) \<Rightarrow>
            (case seedToChecksumWords dictionary sha512 seed of
               (checksumOneVerify, checksumTwoVerify, Some err2) \<Rightarrow>
                 Inr ([], Some (addContextToErr err2 ''could not compute checksum words''))
             | (checksumOneVerify, checksumTwoVerify, None) \<Rightarrow>
                 bindE (prefix uniquePrefix checksumOne) (\<lambda>p1.
                 bindE (prefix uniquePrefix checksumOneVerify) (\<lambda>p1v.
                   if p1 \<noteq> p1v then Inr ([], Some ''first checksum word is invalid'')
                   else
                     bindE (prefix uniquePrefix checksumTwo) (\<lambda>p2.
                     bindE (prefix uniquePrefix checksumTwoVerify) (\<lambda>p2v.
                       if p2 \<noteq> p2v then Inr ([], Some ''second checksum word is invalid'')
                       else Inr (seed, None)))))))"

definition seedPhraseToSeed ::
  "string list \<Rightarrow> nat \<Rightarrow> hashfn \<Rightarrow> string \<Rightarrow> exn + (Uint8Array \<times> Err)" where
  "seedPhraseToSeed dictionary uniquePrefix sha512 seedPhrase =
     validSeedPhrase dictionary uniquePrefix sha512 seedPhrase"

section \<open>Progressive fetch (\<^verbatim>\<open>progressiveFetch\<close>, \<^verbatim>\<open>progressiveFetchHelper\<close>)\<close>

text \<open>
  What the helper reads of a response is its \<^verbatim>\<open>status\<close> property: whether there is
  one, whether it is a number, and how that number compares with 200 and 300. A
  JavaScript number is NaN, an infinity or a finite value, and every finite value is a
  rational. A comparison with NaN is false, whichever way it is written.
\<close>

datatype jsnumber = NaN | PosInfinity | NegInfinity | Finite rat

datatype jsval = JNumber jsnumber | JString string | JNull

text \<open>\<^verbatim>\<open>x < c\<close> and \<^verbatim>\<open>x >= c\<close> for a number \<^verbatim>\<open>x\<close> and a finite constant \<^verbatim>\<open>c\<close>.\<close>

definition jsLess :: "jsnumber \<Rightarrow> rat \<Rightarrow> bool" where
  "jsLess x c = (case x of NaN \<Rightarrow> False | PosInfinity \<Rightarrow> False | NegInfinity \<Rightarrow> True
                 | Finite q \<Rightarrow> q < c)"

definition jsGreaterEq :: "jsnumber \<Rightarrow> rat \<Rightarrow> bool" where
  "jsGreaterEq x c = (case x of NaN \<Rightarrow> False | PosInfinity \<Rightarrow> True | NegInfinity \<Rightarrow> False
                      | Finite q \<Rightarrow> q \<ge> c)"

record Response =
  status :: "jsval option"
  body :: string

text \<open>The promise returned by \<^verbatim>\<open>fetch\<close> is fulfilled with a response or rejected.\<close>

datatype 'e settled = Fulfilled Response | Rejected 'e

text \<open>
  A log line is a message followed by \<^verbatim>\<open>JSON.stringify\<close> of some values; the values
  are kept as they are. The line written on exhaustion holds the whole midstate, in the
  order of its properties: endpoint, fetchOpts, remainingPortals, portalsFailed,
  responsesFailed, logs.
\<close>

datatype ('o, 'e) logline =
    LogAllPortalsTried string 'o "string list" "string list" "'e settled list"
      "('o, 'e) logline list"
  | LogInvalidResponse string string Response
  | LogErrorStatus string string Response
  | LogFetchError 'e

text \<open>
  The array of portals is shared between the caller and the helper
  (\<^verbatim>\<open>remainingPortals: portals\<close>), so it lives in a store of arrays and is named by a
  reference. The other arrays of the midstate are created by \<^verbatim>\<open>progressiveFetch\<close> and
  reach the caller only in the result; they are values. The fields of the result keep
  their names; the local variables \<^verbatim>\<open>portal\<close> and \<^verbatim>\<open>response\<close> of the helper are
  \<open>host\<close> and \<open>resp\<close> here.
\<close>

type_synonym ref = nat
type_synonym store = "ref \<Rightarrow> string list"

record ('o, 'e) progressiveFetchMidstate =
  pfm_endpoint :: string
  pfm_fetchOpts :: 'o
  pfm_portalsFailed :: "string list"
  pfm_responsesFailed :: "'e settled list"
  pfm_remainingPortals :: ref
  pfm_logs :: "('o, 'e) logline list"

record ('o, 'e) progressiveFetchResult =
  success :: bool
  portal :: "string option"
  response :: "Response option"
  portalsFailed :: "string list"
  responsesFailed :: "'e settled list"
  remainingPortals :: "ref option"
  logs :: "('o, 'e) logline list"

text \<open>
  The network is a parameter: \<^verbatim>\<open>fetch\<close> takes the state of the world, the query and
  the options, and gives the settled promise and the next state of the world. The
  callbacks of the promise run one after the other, so the helper is a function of the
  midstate, the store and the world; \<^verbatim>\<open>JSON.stringify\<close> is taken to return.
\<close>

type_synonym ('w, 'o, 'e) fetchfn = "'w \<Rightarrow> string \<Rightarrow> 'o \<Rightarrow> 'e settled \<times> 'w"

definition hasNumberStatus :: "Response \<Rightarrow> bool" where
  "hasNumberStatus resp = (case status resp of Some (JNumber n) \<Rightarrow> True | _ \<Rightarrow> False)"

definition statusNumber :: "Response \<Rightarrow> jsnumber" where
  "statusNumber resp = (case status resp of Some (JNumber n) \<Rightarrow> n | _ \<Rightarrow> NaN)"

definition failedWith ::
  "('o, 'e) progressiveFetchMidstate \<Rightarrow> ('o, 'e) logline \<Rightarrow> string \<Rightarrow> 'e settled
     \<Rightarrow> ('o, 'e) progressiveFetchMidstate" where
  "failedWith pfm newLog host failed =
     pfm\<lparr>pfm_logs := pfm_logs pfm @ [newLog],
         pfm_portalsFailed := pfm_portalsFailed pfm @ [host],
         pfm_responsesFailed := pfm_responsesFailed pfm @ [failed]\<rparr>"

function progressiveFetchHelper ::
  "('w, 'o, 'e) fetchfn \<Rightarrow> ('o, 'e) progressiveFetchMidstate \<Rightarrow> store \<times> 'w
     \<Rightarrow> ('o, 'e) progressiveFetchResult \<times> store \<times> 'w" where
  "progressiveFetchHelper fetch pfm (st, w) =
     (if length (st (pfm_remainingPortals pfm)) = 0 then
        let newLog = LogAllPortalsTried (pfm_endpoint pfm) (pfm_fetchOpts pfm)
                       (st (pfm_remainingPortals pfm)) (pfm_portalsFailed pfm)
                       (pfm_responsesFailed pfm) (pfm_logs pfm);
            logs' = pfm_logs pfm @ [newLog]
        in (\<lparr>success = False, portal = None, response = None,
             portalsFailed = pfm_portalsFailed pfm,
             responsesFailed = pfm_responsesFailed pfm,
             remainingPortals = None, logs = logs'\<rparr>, st, w)
      else
        let host = hd (st (pfm_remainingPortals pfm));
            st' = st(pfm_remainingPortals pfm := tl (st (pfm_remainingPortals pfm)));
            query = ''https://'' @ host @ pfm_endpoint pfm;
            answer = fetch w query (pfm_fetchOpts pfm);
            w' = snd answer
        in case fst answer of
             Fulfilled resp \<Rightarrow>
               if \<not> hasNumberStatus resp then
                 progressiveFetchHelper fetch
                   (failedWith pfm (LogInvalidResponse host query resp) host
                      (Fulfilled resp)) (st', w')
               else if jsLess (statusNumber resp) 200 \<or> jsGreaterEq (statusNumber resp) 300
               then
                 progressiveFetchHelper fetch
                   (failedWith pfm (LogErrorStatus host query resp) host
                      (Fulfilled resp)) (st', w')
               else
                 (\<lparr>success = True, portal = Some host, response = Some resp,
                   portalsFailed = pfm_portalsFailed pfm,
                   responsesFailed = pfm_responsesFailed pfm,
                   remainingPortals = Some (pfm_remainingPortals pfm),
                   logs = pfm_logs pfm\<rparr>, st', w')
           | Rejected err \<Rightarrow>
               progressiveFetchHelper fetch
                 (failedWith pfm (LogFetchError err) host (Rejected err)) (st', w'))"
  by pat_completeness auto
termination
  by (relation "measure (\<lambda>(fetch, pfm, st, w). length (st (pfm_remainingPortals pfm)))")
     (auto simp add: failedWith_def)

definition progressiveFetch ::
  "('w, 'o, 'e) fetchfn \<Rightarrow> string \<Rightarrow> 'o \<Rightarrow> ref \<Rightarrow> store \<times> 'w
     \<Rightarrow> ('o, 'e) progressiveFetchResult \<times> store \<times> 'w" where
  "progressiveFetch fetch endpoint fetchOpts portals stw =
     (let pfm = \<lparr>pfm_endpoint = endpoint, pfm_fetchOpts = fetchOpts,
                 pfm_portalsFailed = [], pfm_responsesFailed = [],
                 pfm_remainingPortals = portals, pfm_logs = []\<rparr>
      in progressiveFetchHelper fetch pfm stw)"

text \<open>
  The statuses that end a run with success: the finite numbers from 200 up to, and not
  including, 300; and NaN, which is a number and is neither below 200 nor at least 300.
\<close>

definition acceptedStatus :: "jsnumber \<Rightarrow> bool" where
  "acceptedStatus x = (case x of NaN \<Rightarrow> True | Finite q \<Rightarrow> 200 \<le> q \<and> q < 300
                       | _ \<Rightarrow> False)"

definition accepted :: "'e settled \<Rightarrow> bool" where
  "accepted s = (case s of Fulfilled r \<Rightarrow>
                   (case status r of Some (JNumber x) \<Rightarrow> acceptedStatus x | _ \<Rightarrow> False)
                 | Rejected e \<Rightarrow> False)"

text \<open>
  The attempts of one operation as the specification describes them: the hosts are
  queried in the order of the list, each in the world the previous query left, and the
  first answer with an accepted status ends the sequence.
\<close>

fun attempts ::
  "('w, 'o, 'e) fetchfn \<Rightarrow> string \<Rightarrow> 'o \<Rightarrow> 'w \<Rightarrow> string list
     \<Rightarrow> (string \<times> 'e settled) list \<times> 'w" where
  "attempts fetch endpoint fetchOpts w [] = ([], w)"
| "attempts fetch endpoint fetchOpts w (p # ps) =
     (let answer = fetch w (''https://'' @ p @ endpoint) fetchOpts in
      if accepted (fst answer) then ([(p, fst answer)], snd answer)
      else (let rest = attempts fetch endpoint fetchOpts (snd answer) ps
            in ((p, fst answer) # fst rest, snd rest)))"

definition succeeded :: "(string \<times> 'e settled) list \<Rightarrow> bool" where
  "succeeded tr = (tr \<noteq> [] \<and> accepted (snd (last tr)))"

text \<open>The log line of a failed attempt.\<close>

definition failureLog :: "string \<Rightarrow> string \<times> 'e settled \<Rightarrow> ('o, 'e) logline" where
  "failureLog endpoint a =
     (case snd a of
        Rejected err \<Rightarrow> LogFetchError err
      | Fulfilled r \<Rightarrow>
          if hasNumberStatus r then LogErrorStatus (fst a) (''https://'' @ fst a @ endpoint) r
          else LogInvalidResponse (fst a) (''https://'' @ fst a @ endpoint) r)"

text \<open>
  A verification function as the callers of the four-argument \<^verbatim>\<open>progressiveFetch\<close>
  write them: an error, or \<^verbatim>\<open>null\<close> for a response that passes. This one accepts only
  the body \<^verbatim>\<open>genuine\<close>.
\<close>

definition verifyBody :: "Response \<Rightarrow> Err" where
  "verifyBody r = (if body r = ''genuine'' then None else Some ''response failed verification'')"

text \<open>Three networks for running the protocol: one per scenario of the specification.\<close>

definition alwaysOk :: "(unit, unit, string) fetchfn" where
  "alwaysOk w query opts = (Fulfilled \<lparr>status = Some (JNumber (Finite 200)), body = ''forged''\<rparr>, w)"

definition neverOk :: "(unit, unit, string) fetchfn" where
  "neverOk w query opts =
     (if query = ''https://H1/x'' then (Rejected ''connection refused'', w)
      else if query = ''https://H2/x'' then (Fulfilled \<lparr>status = Some (JNumber (Finite 500)), body = []\<rparr>, w)
      else (Fulfilled \<lparr>status = None, body = []\<rparr>, w))"

definition thirdOk :: "(unit, unit, string) fetchfn" where
  "thirdOk w query opts =
     (if query = ''https://H1/x'' then (Rejected ''connection refused'', w)
      else if query = ''https://H2/x'' then (Fulfilled \<lparr>status = Some (JNumber (Finite 500)), body = []\<rparr>, w)
      else (Fulfilled \<lparr>status = Some (JNumber (Finite 200)), body = ''genuine''\<rparr>, w))"

text \<open>
  The result that a sequence of attempts leads to, from a midstate: success with the
  last attempt when that one was accepted, exhaustion otherwise. It is what the helper
  is shown to return.
\<close>

definition runResult ::
  "('o, 'e) progressiveFetchMidstate \<Rightarrow> (string \<times> 'e settled) list
     \<Rightarrow> ('o, 'e) progressiveFetchResult" where
  "runResult pfm tr =
     (if succeeded tr then
        \<lparr>success = True, portal = Some (fst (last tr)),
         response = (case snd (last tr) of Fulfilled r \<Rightarrow> Some r | Rejected e \<Rightarrow> None),
         portalsFailed = pfm_portalsFailed pfm @ map fst (butlast tr),
         responsesFailed = pfm_responsesFailed pfm @ map snd (butlast tr),
         remainingPortals = Some (pfm_remainingPortals pfm),
         logs = pfm_logs pfm @ map (failureLog (pfm_endpoint pfm)) (butlast tr)\<rparr>
      else
        \<lparr>success = False, portal = None, response = None,
         portalsFailed = pfm_portalsFailed pfm @ map fst tr,
         responsesFailed = pfm_responsesFailed pfm @ map snd tr,
         remainingPortals = None,
         logs = pfm_logs pfm @ map (failureLog (pfm_endpoint pfm)) tr
                @ [LogAllPortalsTried (pfm_endpoint pfm) (pfm_fetchOpts pfm) []
                     (pfm_portalsFailed pfm @ map fst tr)
                     (pfm_responsesFailed pfm @ map snd tr)
                     (pfm_logs pfm @ map (failureLog (pfm_endpoint pfm)) tr)]\<rparr>)"

text \<open>A store in which every reference holds the three hosts of the examples.\<close>

text \<open>A network whose hosts answer with the status NaN.\<close>

definition nanStatus :: "(unit, unit, string) fetchfn" where
  "nanStatus w query opts = (Fulfilled \<lparr>status = Some (JNumber NaN), body = []\<rparr>, w)"

definition threeHosts :: store where
  "threeHosts portals = [''H1'', ''H2'', ''H3'']"

section \<open>Stand-ins for the primitives\<close>

text \<open>
  Small computable stand-ins for the black-box primitives, used only to run the functions
  on concrete inputs: a hash that keeps the first 32 bytes, and a signature scheme in
  which a signature is the message followed by the key.
\<close>

definition standInHash :: hashfn where
  "standInHash bytes = take 32 bytes"

definition standInSign :: signfn where
  "standInSign message secKey = (message @ secKey, None)"

definition standInVerify :: verifyfn where
  "standInVerify message sig pubkey = (sig = message @ pubkey)"

definition standInKeypair :: keypairfn where
  "standInKeypair entropy = (\<lparr>publicKey = entropy, secretKey = entropy\<rparr>, None)"

section \<open>Properties of the byte-array helpers\<close>

lemma length_le64 [simp]: "length (le64 n) = 8"
  by (simp add: le64_def)

lemma bindE_Inr [simp]: "bindE (Inr x) f = f x"
  by (simp add: bindE_def)

lemma bindE_Inl [simp]: "bindE (Inl e) f = Inl e"
  by (simp add: bindE_def)

lemma length_newUint8Array [simp]: "length (newUint8Array n) = n"
  by (simp add: newUint8Array_def)

lemma drop_newUint8Array [simp]: "drop k (newUint8Array n) = newUint8Array (n - k)"
  by (simp add: newUint8Array_def)

lemma newUint8Array_0 [simp]: "newUint8Array 0 = []"
  by (simp add: newUint8Array_def)

lemma u8set_at_end:
  "length src \<le> length rest \<Longrightarrow> offset = length a \<Longrightarrow>
   u8set (a @ rest) src offset = Inr (a @ src @ drop (length src) rest)"
  by (simp add: u8set_def)

lemma u8set_new:
  "length src \<le> n \<Longrightarrow> u8set (newUint8Array n) src 0 = Inr (src @ newUint8Array (n - length src))"
  by (simp add: u8set_def newUint8Array_def)

lemma encodeU64_ok: "0 \<le> r \<Longrightarrow> r < 2 ^ 64 \<Longrightarrow> encodeU64 r = (le64 (nat r), None)"
  by (simp add: encodeU64_def)

section \<open>Registry signatures\<close>

text \<open>
  With a 32-byte datakey the three \<^verbatim>\<open>set\<close> calls fill the buffer exactly: the signed
  and the verified bytes are the datakey, the prefixed data and the encoded revision.
\<close>

lemma signing_buffer:
  assumes "length datakey = 32" "length encodedRevision = 8"
  shows "bindE (u8set (newUint8Array (32 + 8 + length data + 8)) datakey 0) (\<lambda>b1.
         bindE (u8set b1 (le64 (length data) @ data) 32) (\<lambda>b2.
         bindE (u8set b2 encodedRevision (32 + 8 + length data)) f))
       = f (datakey @ le64 (length data) @ data @ encodedRevision)"
proof -
  have 1: "u8set (newUint8Array (32 + 8 + length data + 8)) datakey 0
             = Inr (datakey @ newUint8Array (8 + length data + 8))"
    using assms by (simp add: u8set_new)
  have 2: "u8set (datakey @ newUint8Array (8 + length data + 8)) (le64 (length data) @ data) 32
             = Inr (datakey @ (le64 (length data) @ data) @ newUint8Array 8)"
    using assms by (subst u8set_at_end) simp_all
  have 3: "u8set ((datakey @ le64 (length data) @ data) @ newUint8Array 8) encodedRevision
               (32 + 8 + length data)
             = Inr ((datakey @ le64 (length data) @ data) @ encodedRevision @ [])"
    using assms by (subst u8set_at_end) simp_all
  show ?thesis using 1 2 3 by simp
qed

lemma signing_buffer_normal:
  assumes "length datakey = 32" "length encodedRevision = 8"
  shows "bindE (u8set (newUint8Array (48 + length data)) datakey 0) (\<lambda>b1.
         bindE (u8set b1 (le64 (length data) @ data) 32) (\<lambda>b2.
         bindE (u8set b2 encodedRevision (40 + length data)) f))
       = f (datakey @ le64 (length data) @ data @ encodedRevision)"
  using signing_buffer [OF assms, of data f] by (simp add: add.commute)

text \<open>
  C2. For a 32-byte datakey, data of at most 86 bytes and a revision in the range of
  an unsigned 64-bit counter, signer and verifier hash the same bytes,
  \<open>datakey @ encodePrefixedBytes data @ encodeU64 revision\<close>: when the signature scheme
  signs that hash with the secret key of a keypair and accepts its own signature under
  the public key, \<^verbatim>\<open>computeRegistrySignature\<close> returns the signature without an error
  and \<^verbatim>\<open>verifyRegistrySignature\<close> returns true on it.
\<close>

theorem sign_then_verify:
  assumes "length datakey = 32" and "length data \<le> 86"
    and "0 \<le> revision" and "revision < 2 ^ 64"
    and "ed25519Sign (blake2b (datakey @ fst (encodePrefixedBytes data) @ fst (encodeU64 revision)))
           (secretKey keypair) = (sig, None)"
    and "ed25519Verify (blake2b (datakey @ fst (encodePrefixedBytes data) @ fst (encodeU64 revision)))
           sig (publicKey keypair)"
  shows "computeRegistrySignature blake2b ed25519Sign (secretKey keypair) datakey data revision
           = Inr (sig, None)
       \<and> verifyRegistrySignature blake2b ed25519Verify (publicKey keypair) datakey data revision sig
           = Inr True"
  using assms
  by (simp add: computeRegistrySignature_def verifyRegistrySignature_def encodePrefixedBytes_def
      encodeU64_ok signing_buffer_normal)

theorem sign_then_verify_witness:
  "length (replicate 32 (0::u8)) = 32 \<and> length [1, 2, 3 :: u8] \<le> 86 \<and> (0::int) \<le> 5
   \<and> (5::int) < 2 ^ 64
   \<and> computeRegistrySignature standInHash standInSign
         (secretKey \<lparr>publicKey = [7], secretKey = [7]\<rparr>) (replicate 32 0) [1, 2, 3] 5
       = Inr (replicate 32 0 @ [7], None)
   \<and> verifyRegistrySignature standInHash standInVerify
         (publicKey \<lparr>publicKey = [7], secretKey = [7]\<rparr>) (replicate 32 0) [1, 2, 3] 5
         (replicate 32 0 @ [7])
       = Inr True"
  using sign_then_verify [of "replicate 32 0" "[1, 2, 3]" 5 standInSign standInHash
      "\<lparr>publicKey = [7], secretKey = [7]\<rparr>" "replicate 32 0 @ [7]" standInVerify]
  by (simp add: standInHash_def standInSign_def standInVerify_def)

text \<open>
  C3. \<^verbatim>\<open>verifyRegistrySignature\<close> does not check the length of the datakey before it
  copies it into a buffer of \<open>48 + length data\<close> bytes: on a datakey of 49 bytes with
  empty data the copy throws a RangeError, whatever the other arguments are.
\<close>

theorem verify_throws_on_long_datakey:
  "verifyRegistrySignature blake2b ed25519Verify pubkey (replicate 49 0) [] 0 sig
     = Inl RangeError"
  by (simp add: verifyRegistrySignature_def encodePrefixedBytes_def encodeU64_def u8set_def)

text \<open>
  C10. The limit of 86 bytes is checked by the signer only. For data longer than 86
  bytes \<^verbatim>\<open>computeRegistrySignature\<close> returns the error; \<^verbatim>\<open>verifyRegistrySignature\<close>
  has no such check, and (datakey of 32 bytes, revision an unsigned 64-bit number)
  returns true whenever the signature is valid over the hash of
  \<open>datakey @ encodePrefixedBytes data @ encodeU64 revision\<close>.
\<close>

theorem limit_only_on_signing:
  assumes "length data > 86" and "length datakey = 32"
    and "0 \<le> revision" and "revision < 2 ^ 64"
    and "ed25519Verify (blake2b (datakey @ fst (encodePrefixedBytes data) @ fst (encodeU64 revision)))
           sig pubkey"
  shows "computeRegistrySignature blake2b ed25519Sign secKey datakey data revision
           = Inr ([], Some ''registry data must be at most 86 bytes'')
       \<and> verifyRegistrySignature blake2b ed25519Verify pubkey datakey data revision sig
           = Inr True"
  using assms
  by (simp add: computeRegistrySignature_def verifyRegistrySignature_def encodePrefixedBytes_def
      encodeU64_ok signing_buffer_normal)

theorem limit_only_on_signing_witness:
  "length (replicate 87 (1::u8)) > 86 \<and> length (replicate 32 (0::u8)) = 32
   \<and> computeRegistrySignature standInHash standInSign [7] (replicate 32 0) (replicate 87 1) 5
       = Inr ([], Some ''registry data must be at most 86 bytes'')
   \<and> verifyRegistrySignature standInHash standInVerify [7] (replicate 32 0) (replicate 87 1) 5
         (replicate 32 0 @ [7])
       = Inr True"
  using limit_only_on_signing [of "replicate 87 1" "replicate 32 0" 5 standInVerify standInHash
      "replicate 32 0 @ [7]" "[7]" standInSign "[7]"]
  by (simp add: standInHash_def standInVerify_def)

section \<open>Registry entry identifiers\<close>

lemma registryEntryEncoding_32:
  assumes "length pubkey = 32" "length datakey = 32"
  shows "registryEntryEncoding (le64 32) pubkey datakey
           = Inr (map charCode ''ed25519'' @ replicate 9 0 @ le64 32 @ pubkey @ datakey)"
proof -
  let ?spec = "map charCode ''ed25519'' @ replicate 9 (0::u8)"
  have 0: "(newUint8Array (16 + 8 + 32 + 32))
            [0 := charCode CHR ''e'', 1 := charCode CHR ''d'', 2 := charCode CHR ''2'',
             3 := charCode CHR ''5'', 4 := charCode CHR ''5'', 5 := charCode CHR ''1'',
             6 := charCode CHR ''9''] = ?spec @ newUint8Array 72"
    by (simp add: newUint8Array_def numeral_eq_Suc)
  have 1: "u8set (?spec @ newUint8Array 72) (le64 32) 16 = Inr (?spec @ le64 32 @ newUint8Array 64)"
    by (subst u8set_at_end) simp_all
  have 2: "u8set ((?spec @ le64 32) @ newUint8Array 64) pubkey (16 + 8)
             = Inr ((?spec @ le64 32) @ pubkey @ newUint8Array 32)"
    using assms by (subst u8set_at_end) simp_all
  have 3: "u8set ((?spec @ le64 32 @ pubkey) @ newUint8Array 32) datakey (16 + 8 + 32)
             = Inr ((?spec @ le64 32 @ pubkey) @ datakey @ [])"
    using assms by (subst u8set_at_end) simp_all
  show ?thesis
    unfolding registryEntryEncoding_def Let_def 0 using 1 2 3 by simp
qed

text \<open>
  C6, as the code has it. \<^verbatim>\<open>deriveRegistryEntryID\<close> returns an error exactly when
  the public key or the datakey is not 32 bytes long. Otherwise it returns the hash of an
  88-byte encoding: a 16-byte specifier field (the seven characters \<^verbatim>\<open>ed25519\<close> and
  nine zero bytes), the encoded 32, the public key and the datakey. The encoding
  determines both inputs, so a change to either changes the bytes that are hashed.
\<close>

theorem entry_id_of_padded_specifier:
  "(\<exists>v e. deriveRegistryEntryID blake2b pubkey datakey = Inr (v, Some e))
     = (length pubkey \<noteq> 32 \<or> length datakey \<noteq> 32)
   \<and> (length pubkey = 32 \<and> length datakey = 32 \<longrightarrow>
        deriveRegistryEntryID blake2b pubkey datakey
          = Inr (blake2b (map charCode ''ed25519'' @ replicate 9 0 @ fst (encodeU64 32)
                           @ pubkey @ datakey), None))
   \<and> (length pubkey = 32 \<and> length datakey = 32 \<and> length pubkey' = 32 \<and> length datakey' = 32 \<longrightarrow>
        (registryEntryEncoding (fst (encodeU64 32)) pubkey datakey
           = registryEntryEncoding (fst (encodeU64 32)) pubkey' datakey')
          = (pubkey = pubkey' \<and> datakey = datakey'))"
proof -
  have e: "encodeU64 32 = (le64 32, None)"
    by (simp add: encodeU64_def)
  show ?thesis
    by (auto simp add: deriveRegistryEntryID_def e registryEntryEncoding_32)
qed

theorem entry_id_of_padded_specifier_witness:
  "deriveRegistryEntryID standInHash (replicate 32 1) (replicate 32 2)
     = Inr (map charCode ''ed25519'' @ replicate 9 0 @ fst (encodeU64 32) @ replicate 8 1, None)
   \<and> registryEntryEncoding (fst (encodeU64 32)) (replicate 32 1) (replicate 32 2)
     \<noteq> registryEntryEncoding (fst (encodeU64 32)) (replicate 32 1) (replicate 32 3)"
  using entry_id_of_padded_specifier [of standInHash "replicate 32 1" "replicate 32 2"
      "replicate 32 1" "replicate 32 3"]
  by (simp add: standInHash_def encodeU64_def)

text \<open>
  C6, as the claim states it: the hash of the 7-byte specifier followed directly by the
  encoded 32. The bytes that the code hashes are not those (88 bytes against 79), and
  with the stand-in hash the results differ.
\<close>

theorem entry_id_preimage_counterexample:
  "registryEntryEncoding (fst (encodeU64 32)) (replicate 32 1) (replicate 32 2)
     \<noteq> Inr (specEntryIDPreimage (replicate 32 1) (replicate 32 2))
   \<and> deriveRegistryEntryID standInHash (replicate 32 1) (replicate 32 2)
     \<noteq> Inr (standInHash (specEntryIDPreimage (replicate 32 1) (replicate 32 2)), None)"
proof -
  have e: "encodeU64 32 = (le64 32, None)"
    by (simp add: encodeU64_def)
  have l: "length (replicate 32 (1::u8)) = 32" "length (replicate 32 (2::u8)) = 32"
    by simp_all
  have le: "le64 32 = [32, 0, 0, 0, 0, 0, 0, 0]"
    by (simp add: le64_def upt_rec)
  have z: "replicate 9 (0::u8) = 0 # replicate 8 0"
    by (simp add: numeral_eq_Suc)
  have p: "registryEntryEncoding (fst (encodeU64 32)) (replicate 32 1) (replicate 32 2)
             = Inr (map charCode ''ed25519'' @ replicate 9 0 @ le64 32
                     @ replicate 32 1 @ replicate 32 2)"
    by (simp add: e registryEntryEncoding_32 [OF l])
  have d: "deriveRegistryEntryID standInHash (replicate 32 1) (replicate 32 2)
             = Inr (standInHash (map charCode ''ed25519'' @ replicate 9 0 @ le64 32
                     @ replicate 32 1 @ replicate 32 2), None)"
    by (simp add: deriveRegistryEntryID_def e registryEntryEncoding_32 [OF l])
  show ?thesis
    unfolding p d by (simp add: specEntryIDPreimage_def standInHash_def e le z)
qed

section \<open>Tagged registry keys\<close>

lemma datakeyInput_eq:
  "datakeyInput seed keypairTag datakeyTag
     = Inr (seed @ [of_nat (length keypairTag)] @ keypairTag @ datakeyTag)"
proof -
  let ?n = "length seed + 1 + length keypairTag + length datakeyTag"
  have k: "(newUint8Array 1)[0 := of_nat (length keypairTag)] = [of_nat (length keypairTag)]"
    by (simp add: newUint8Array_def)
  have 1: "u8set (newUint8Array ?n) seed 0
             = Inr (seed @ newUint8Array (1 + length keypairTag + length datakeyTag))"
    by (simp add: u8set_new)
  have 2: "u8set (seed @ newUint8Array (1 + length keypairTag + length datakeyTag))
               [of_nat (length keypairTag)] (length seed)
             = Inr (seed @ [of_nat (length keypairTag)]
                     @ newUint8Array (length keypairTag + length datakeyTag))"
    by (subst u8set_at_end) simp_all
  have 3: "u8set ((seed @ [of_nat (length keypairTag)])
                    @ newUint8Array (length keypairTag + length datakeyTag))
               keypairTag (length seed + 1)
             = Inr ((seed @ [of_nat (length keypairTag)]) @ keypairTag
                     @ newUint8Array (length datakeyTag))"
    by (subst u8set_at_end) simp_all
  have 4: "u8set ((seed @ [of_nat (length keypairTag)] @ keypairTag)
                    @ newUint8Array (length datakeyTag))
               datakeyTag (length seed + 1 + length keypairTag)
             = Inr ((seed @ [of_nat (length keypairTag)] @ keypairTag) @ datakeyTag @ [])"
    by (subst u8set_at_end) simp_all
  show ?thesis
    unfolding datakeyInput_def Let_def k using 1 2 3 4 by simp
qed

lemma entropyInput_eq:
  assumes "length seed = k"
  shows "bindE (u8set (newUint8Array (length keypairTag + k)) seed 0)
     (\<lambda>e1. bindE (u8set e1 keypairTag k) f) = f (seed @ keypairTag)"
proof -
  have 1: "u8set (newUint8Array (length keypairTag + k)) seed 0
             = Inr (seed @ newUint8Array (length keypairTag))"
    using assms by (simp add: u8set_new)
  have 2: "u8set (seed @ newUint8Array (length keypairTag)) keypairTag k
             = Inr (seed @ keypairTag @ [])"
    using assms by (subst u8set_at_end) simp_all
  show ?thesis using 1 2 by simp
qed

lemma taggedRegistryEntryKeys_standIn:
  assumes "length seed = 16" "length keypairTagStr \<le> 255"
  shows "taggedRegistryEntryKeys sha512 standInKeypair seed keypairTagStr (Some datakeyTagStr)
     = Inr (Some \<lparr>publicKey = take 32 (sha512 (seed @ TextEncoder_encode keypairTagStr)),
                  secretKey = take 32 (sha512 (seed @ TextEncoder_encode keypairTagStr))\<rparr>,
            take 32 (sha512 (seed @ [of_nat (length (TextEncoder_encode keypairTagStr))]
                       @ TextEncoder_encode keypairTagStr @ TextEncoder_encode datakeyTagStr)),
            None)"
  using assms
  by (simp add: taggedRegistryEntryKeys_def SEED_BYTES_def Let_def entropyInput_eq
      datakeyInput_eq standInKeypair_def)

lemma encode_e_acute: "TextEncoder_encode (0xE9 # cs) = [0xC3, 0xA9] @ TextEncoder_encode cs"
  by (cases cs) (simp_all add: utf8_def)

lemma encode_e_acutes:
  "TextEncoder_encode (replicate n 0xE9) = concat (replicate n [0xC3, 0xA9])"
  by (induction n) (simp_all add: encode_e_acute del: TextEncoder_encode.simps(2,3))

lemma length_concat_replicate_pair: "length (concat (replicate n [a, b])) = 2 * n"
  by (induction n) simp_all

text \<open>
  C5. The guard of \<^verbatim>\<open>taggedRegistryEntryKeys\<close> bounds the number of UTF-16 code
  units of the keypair tag, while the length prefix is the number of its UTF-8 bytes
  stored into one byte. A tag of 128 characters U+00E9 is accepted, has 256 bytes and
  the prefix 0: the pair of that tag with the empty datakey tag and the pair of the
  empty keypair tag with that datakey tag give the same preimage, and the same datakey
  whatever the hash function is.
\<close>

theorem tag_pairs_collide:
  "length (replicate 128 (0xE9 :: 16 word)) \<le> 255
   \<and> (replicate 128 (0xE9 :: 16 word), []) \<noteq> ([], replicate 128 0xE9)
   \<and> datakeyInput (replicate 16 0) (TextEncoder_encode (replicate 128 0xE9)) (TextEncoder_encode [])
     = datakeyInput (replicate 16 0) (TextEncoder_encode []) (TextEncoder_encode (replicate 128 0xE9))
   \<and> fst (snd (projr (taggedRegistryEntryKeys sha512 standInKeypair (replicate 16 0)
                         (replicate 128 0xE9) (Some []))))
     = fst (snd (projr (taggedRegistryEntryKeys sha512 standInKeypair (replicate 16 0)
                         [] (Some (replicate 128 0xE9)))))"
proof -
  have w: "of_nat (length (TextEncoder_encode (replicate 128 (0xE9 :: 16 word)))) = (0 :: u8)"
    by (simp add: encode_e_acutes length_concat_replicate_pair)
  have s: "length (replicate 16 (0::u8)) = 16" by simp
  have n: "replicate 128 (0xE9 :: 16 word) \<noteq> []" by simp
  show ?thesis
    using n by (simp add: datakeyInput_eq taggedRegistryEntryKeys_standIn [OF s] w)
qed

section \<open>Skyfile paths\<close>

lemma split_nonempty [simp]: "split sep s \<noteq> []"
  by (induction s) (auto split: list.splits)

lemma joinWith_Cons: "ws \<noteq> [] \<Longrightarrow> joinWith sep (w # ws) = w @ sep # joinWith sep ws"
  by (cases ws) simp_all

lemma joinWith_split: "joinWith sep (split sep s) = s"
proof (induction s)
  case Nil
  show ?case by simp
next
  case (Cons c cs)
  show ?case
  proof (cases "c = sep")
    case True
    then show ?thesis using Cons by (simp add: joinWith_Cons)
  next
    case False
    obtain w ws where sp: "split sep cs = w # ws"
      using split_nonempty [of sep cs] by (cases "split sep cs") auto
    have "joinWith sep ((c # w) # ws) = c # joinWith sep (w # ws)"
      by (cases ws) simp_all
    then show ?thesis using False Cons sp by simp
  qed
qed

lemma split_no_sep: "w \<in> set (split sep s) \<Longrightarrow> sep \<notin> set w"
proof (induction s arbitrary: w)
  case Nil
  then show ?case by simp
next
  case (Cons c cs)
  then show ?case
    by (cases "split sep cs") (auto split: if_splits)
qed

lemma pathElemsLoop_None:
  "(pathElemsLoop es = None) = (\<forall>e \<in> set es. e \<noteq> [] \<and> e \<noteq> ''.'' \<and> e \<noteq> ''..'')"
  by (induction es) auto

text \<open>
  C8. \<^verbatim>\<open>validateSkyfilePath\<close> returns \<^verbatim>\<open>null\<close> exactly for the paths that are not empty,
  are not \<^verbatim>\<open>.\<close> or \<^verbatim>\<open>..\<close>, do not start with \<^verbatim>\<open>/\<close>, \<^verbatim>\<open>./\<close> or \<^verbatim>\<open>../\<close>, and have no
  slash-separated segment that is empty, \<^verbatim>\<open>.\<close> or \<^verbatim>\<open>..\<close>; for every other path it
  returns an error. The segments are those of \<^verbatim>\<open>split\<close>: joined with slashes they give
  the path back, and none contains a slash.
\<close>

theorem validateSkyfilePath_valid_iff:
  "(validateSkyfilePath path = None) =
     (path \<noteq> [] \<and> path \<noteq> ''.'' \<and> path \<noteq> ''..''
      \<and> \<not> startsWith path ''/'' \<and> \<not> startsWith path ''./'' \<and> \<not> startsWith path ''../''
      \<and> (\<forall>e \<in> set (split CHR ''/'' path). e \<noteq> [] \<and> e \<noteq> ''.'' \<and> e \<noteq> ''..''))"
  by (simp add: validateSkyfilePath_def pathElemsLoop_None)

text \<open>
  The examples of the specification and of \<^verbatim>\<open>TestValidateSkyfilePath\<close>.
\<close>

theorem validateSkyfilePath_valid_iff_witness:
  "validateSkyfilePath ''test/subtrial.ext'' = None
   \<and> split CHR ''/'' ''test/subtrial.ext'' = [''test'', ''subtrial.ext'']
   \<and> validateSkyfilePath ''a/../b'' \<noteq> None \<and> validateSkyfilePath [] \<noteq> None
   \<and> validateSkyfilePath ''/x'' \<noteq> None \<and> validateSkyfilePath ''x/'' \<noteq> None"
  using validateSkyfilePath_valid_iff [of "''test/subtrial.ext''"]
    validateSkyfilePath_valid_iff [of "''a/../b''"]
    validateSkyfilePath_valid_iff [of "[]"]
    validateSkyfilePath_valid_iff [of "''/x''"]
    validateSkyfilePath_valid_iff [of "''x/''"]
  by (simp add: startsWith_def)

section \<open>Seed phrases\<close>

lemma wordBitsLoop_length:
  "length (fst (wordBitsLoop word wordBits j st)) = length (fst st)"
proof (induction word wordBits j st rule: wordBitsLoop.induct)
  case (1 word wordBits j bytes curByte curBit)
  show ?case
    using "1.IH"
    by (subst wordBitsLoop.simps) (simp add: Let_def del: wordBitsLoop.simps)
qed

lemma seedWordsLoop_found:
  assumes "\<forall>k < SEED_ENTROPY_WORDS. findWord uniquePrefix (seedWords ! k) dictionary 0 \<noteq> -1"
  shows "snd (seedWordsLoop dictionary uniquePrefix seedWords i st) = None
         \<and> length (fst (seedWordsLoop dictionary uniquePrefix seedWords i st)) = length (fst st)"
  using assms
proof (induction dictionary uniquePrefix seedWords i st rule: seedWordsLoop.induct)
  case (1 dictionary uniquePrefix seedWords i st)
  show ?case
  proof (cases "i < SEED_ENTROPY_WORDS")
    case True
    then have f: "findWord uniquePrefix (seedWords ! i) dictionary 0 \<noteq> -1"
      using "1.prems" by simp
    show ?thesis
      using True f "1.IH" [OF True refl f refl] "1.prems"
      by (subst (1 2) seedWordsLoop.simps)
         (simp add: Let_def wordBitsLoop_length del: seedWordsLoop.simps)
  next
    case False
    then show ?thesis
      by (subst (1 2) seedWordsLoop.simps) simp
  qed
qed

lemma validSeedPhrase_no_checksum:
  assumes "split CHR '' '' seedPhrase = seedWords"
    and "length seedWords = 13"
    and "\<forall>k < 13. findWord uniquePrefix (seedWords ! k) dictionary 0 \<noteq> -1"
  shows "validSeedPhrase dictionary uniquePrefix sha512 seedPhrase = Inl TypeError"
proof -
  let ?r = "seedWordsLoop dictionary uniquePrefix seedWords 0 (newUint8Array SEED_BYTES, 0, 0)"
  have l: "snd ?r = None \<and> length (fst ?r) = SEED_BYTES"
    using seedWordsLoop_found [of uniquePrefix seedWords dictionary 0
        "(newUint8Array SEED_BYTES, 0, 0)"] assms(3)
    by (simp add: SEED_ENTROPY_WORDS_def)
  then obtain seed where r: "?r = (seed, None)" and ls: "length seed = SEED_BYTES"
    by (cases ?r) auto
  have s: "seedWordsToSeed dictionary uniquePrefix seedWords = (seed, None)"
    using assms(2) r by (simp add: seedWordsToSeed_def SEED_ENTROPY_WORDS_def)
  have c: "snd (snd (seedToChecksumWords dictionary sha512 seed)) = None"
    using ls by (simp add: seedToChecksumWords_def Let_def)
  then obtain c1 c2 where cs: "seedToChecksumWords dictionary sha512 seed = (c1, c2, None)"
    by (cases "seedToChecksumWords dictionary sha512 seed") auto
  show ?thesis
    using assms(1,2) s cs
    by (simp add: validSeedPhrase_def Let_def SEED_ENTROPY_WORDS_def elemAt_def prefix_def)
qed

text \<open>
  C7. \<^verbatim>\<open>validSeedPhrase\<close> is not total. On a phrase of thirteen dictionary words and
  no checksum words \<^verbatim>\<open>seedWordsAndChecksum[13]\<close> is \<^verbatim>\<open>undefined\<close>, the thirteen words
  convert to a seed, and \<^verbatim>\<open>prefix(checksumOne)\<close> throws a TypeError, whatever the rest
  of the dictionary and the hash function are.
\<close>

theorem validSeedPhrase_throws:
  "validSeedPhrase (''abbey'' # dictionary) 3 sha512
     ''abbey abbey abbey abbey abbey abbey abbey abbey abbey abbey abbey abbey abbey''
   = Inl TypeError"
proof -
  have sp: "split CHR '' ''
              ''abbey abbey abbey abbey abbey abbey abbey abbey abbey abbey abbey abbey abbey''
            = replicate 13 ''abbey''"
    by (simp add: numeral_eq_Suc)
  have f: "\<forall>k < 13. findWord 3 (replicate 13 ''abbey'' ! k) (''abbey'' # dictionary) 0 \<noteq> -1"
    by simp
  show ?thesis
    by (rule validSeedPhrase_no_checksum [OF sp _ f]) simp
qed

section \<open>Progressive fetch\<close>

declare progressiveFetchHelper.simps [simp del]

lemma succeeded_Cons:
  "\<not> accepted s \<Longrightarrow> succeeded ((p, s) # tr) = succeeded tr"
  by (simp add: succeeded_def)

lemma accepted_Fulfilled:
  "accepted (Fulfilled r)
     = (hasNumberStatus r
        \<and> \<not> (jsLess (statusNumber r) 200 \<or> jsGreaterEq (statusNumber r) 300))"
  by (auto simp add: accepted_def acceptedStatus_def hasNumberStatus_def statusNumber_def
      jsLess_def jsGreaterEq_def
      split: option.splits jsval.splits jsnumber.splits)

lemma accepted_Rejected [simp]: "\<not> accepted (Rejected e)"
  by (simp add: accepted_def acceptedStatus_def)

lemma runResult_step:
  assumes "\<not> accepted s"
  shows "runResult (failedWith pfm (failureLog (pfm_endpoint pfm) (p, s)) p s) tr
           = runResult pfm ((p, s) # tr)"
proof (cases "succeeded tr")
  case True
  then have "tr \<noteq> []" by (simp add: succeeded_def)
  then show ?thesis
    using True assms by (simp add: runResult_def succeeded_Cons failedWith_def)
next
  case False
  then show ?thesis
    using assms by (simp add: runResult_def succeeded_Cons failedWith_def)
qed

lemma failedWith_same [simp]:
  "pfm_remainingPortals (failedWith pfm l p s) = pfm_remainingPortals pfm"
  "pfm_endpoint (failedWith pfm l p s) = pfm_endpoint pfm"
  "pfm_fetchOpts (failedWith pfm l p s) = pfm_fetchOpts pfm"
  by (simp_all add: failedWith_def)

lemma helper_step:
  assumes "st (pfm_remainingPortals pfm) = p # ps"
    and "fetch w (''https://'' @ p @ pfm_endpoint pfm) (pfm_fetchOpts pfm) = (s, w')"
  shows "progressiveFetchHelper fetch pfm (st, w) =
     (if accepted s
      then (\<lparr>success = True, portal = Some p,
              response = (case s of Fulfilled r \<Rightarrow> Some r | Rejected e \<Rightarrow> None),
              portalsFailed = pfm_portalsFailed pfm,
              responsesFailed = pfm_responsesFailed pfm,
              remainingPortals = Some (pfm_remainingPortals pfm),
              logs = pfm_logs pfm\<rparr>, st(pfm_remainingPortals pfm := ps), w')
      else progressiveFetchHelper fetch
             (failedWith pfm (failureLog (pfm_endpoint pfm) (p, s)) p s)
             (st(pfm_remainingPortals pfm := ps), w'))"
  using assms
  by (subst progressiveFetchHelper.simps)
     (auto simp add: Let_def failureLog_def accepted_Fulfilled split: settled.splits)

lemma attempts_step:
  assumes "fetch w (''https://'' @ p @ endpoint) fetchOpts = (s, w')"
  shows "attempts fetch endpoint fetchOpts w (p # ps) =
     (if accepted s then ([(p, s)], w')
      else ((p, s) # fst (attempts fetch endpoint fetchOpts w' ps),
            snd (attempts fetch endpoint fetchOpts w' ps)))"
  using assms by (simp add: Let_def)

lemma helper_run:
  assumes "st (pfm_remainingPortals pfm) = hosts"
  shows "progressiveFetchHelper fetch pfm (st, w) =
     (runResult pfm (fst (attempts fetch (pfm_endpoint pfm) (pfm_fetchOpts pfm) w hosts)),
      st(pfm_remainingPortals pfm :=
           drop (length (fst (attempts fetch (pfm_endpoint pfm) (pfm_fetchOpts pfm) w hosts)))
             hosts),
      snd (attempts fetch (pfm_endpoint pfm) (pfm_fetchOpts pfm) w hosts))"
  using assms
proof (induction hosts arbitrary: pfm st w)
  case Nil
  then have "st(pfm_remainingPortals pfm := []) = st" by auto
  then show ?case
    using Nil
    by (subst progressiveFetchHelper.simps) (simp add: Let_def runResult_def succeeded_def)
next
  case (Cons p ps)
  obtain s w' where a: "fetch w (''https://'' @ p @ pfm_endpoint pfm) (pfm_fetchOpts pfm) = (s, w')"
    by (cases "fetch w (''https://'' @ p @ pfm_endpoint pfm) (pfm_fetchOpts pfm)")
  note hs = helper_step [where st = st and pfm = pfm and p = p and ps = ps and fetch = fetch
      and w = w and s = s and w' = w', OF Cons.prems a]
  note as = attempts_step [where fetch = fetch and w = w and p = p
      and endpoint = "pfm_endpoint pfm" and fetchOpts = "pfm_fetchOpts pfm" and s = s
      and w' = w' and ps = ps, OF a]
  show ?case
  proof (cases "accepted s")
    case True
    show ?thesis
      using True
      by (simp add: hs as runResult_def succeeded_def fun_upd_def del: attempts.simps)
  next
    case False
    let ?pfm' = "failedWith pfm (failureLog (pfm_endpoint pfm) (p, s)) p s"
    let ?st' = "st(pfm_remainingPortals pfm := ps)"
    have "?st' (pfm_remainingPortals ?pfm') = ps"
      by simp
    from Cons.IH [where st = ?st' and pfm = ?pfm' and w = w', OF this]
    show ?thesis
      using False
      by (simp add: hs as runResult_step [OF False] fun_upd_def
          del: attempts.simps cong: if_cong)
  qed
qed

lemma progressiveFetch_run:
  "progressiveFetch fetch endpoint fetchOpts portals (st, w) =
     (let run = attempts fetch endpoint fetchOpts w (st portals);
          pfm = \<lparr>pfm_endpoint = endpoint, pfm_fetchOpts = fetchOpts,
                 pfm_portalsFailed = [], pfm_responsesFailed = [],
                 pfm_remainingPortals = portals, pfm_logs = []\<rparr>
      in (runResult pfm (fst run), st(portals := drop (length (fst run)) (st portals)), snd run))"
  by (simp add: progressiveFetch_def Let_def helper_run [OF refl])

lemma attempts_prefix:
  "map fst (fst (attempts fetch endpoint fetchOpts w hosts))
     = take (length (fst (attempts fetch endpoint fetchOpts w hosts))) hosts"
  by (induction hosts arbitrary: w) (simp_all add: Let_def)

lemma attempts_failures:
  "\<forall>a \<in> set (butlast (fst (attempts fetch endpoint fetchOpts w hosts))). \<not> accepted (snd a)"
proof (induction hosts arbitrary: w)
  case Nil
  show ?case by simp
next
  case (Cons p ps)
  show ?case
    using Cons.IH by (auto simp add: Let_def dest: in_set_butlastD split: if_splits)
qed

lemma attempts_exhausted:
  "\<not> succeeded (fst (attempts fetch endpoint fetchOpts w hosts)) \<Longrightarrow>
   map fst (fst (attempts fetch endpoint fetchOpts w hosts)) = hosts"
proof (induction hosts arbitrary: w)
  case Nil
  show ?case by simp
next
  case (Cons p ps)
  obtain s w' where a: "fetch w (''https://'' @ p @ endpoint) fetchOpts = (s, w')"
    by (cases "fetch w (''https://'' @ p @ endpoint) fetchOpts")
  note as = attempts_step [where fetch = fetch and w = w and p = p and endpoint = endpoint
      and fetchOpts = fetchOpts and s = s and w' = w' and ps = ps, OF a]
  show ?case
  proof (cases "accepted s")
    case True
    then show ?thesis
      using Cons.prems by (simp add: as succeeded_def del: attempts.simps)
  next
    case False
    then have "\<not> succeeded (fst (attempts fetch endpoint fetchOpts w' ps))"
      using Cons.prems by (simp add: as succeeded_Cons del: attempts.simps)
    from Cons.IH [OF this] show ?thesis
      using False by (simp add: as del: attempts.simps)
  qed
qed

lemma acceptedStatus_iff:
  "acceptedStatus x = (x = NaN \<or> (\<exists>q. x = Finite q \<and> 200 \<le> q \<and> q < 300))"
  by (cases x) (simp_all add: acceptedStatus_def)

lemma succeeded_last:
  "succeeded tr \<Longrightarrow> \<exists>resp x. snd (last tr) = Fulfilled resp \<and> status resp = Some (JNumber x)
     \<and> acceptedStatus x"
  by (auto simp add: succeeded_def accepted_def split: settled.splits option.splits jsval.splits)

text \<open>
  C4, as the code has it. The hosts are queried in the order of the array. A host fails
  when the promise is rejected, when the response has no status that is a number, or
  when that number is below 200 or at least 300; each failed host and its response or
  error are appended to the failed lists and its line to the log before the next
  query. The first host that does not fail (its status a finite number from 200 up to
  300, or NaN) ends the run with success, that host, its response, the failed lists so
  far and the array holding the hosts not yet tried. When every host fails the result
  has no success, all hosts in the failed lists, a last log line that holds them, and
  \<^verbatim>\<open>remainingPortals: null\<close>; the array itself is left empty.
\<close>

theorem progressive_fetch_in_order:
  "let tr = fst (attempts fetch endpoint fetchOpts w (st portals));
       out = progressiveFetch fetch endpoint fetchOpts portals (st, w);
       r = fst out; st' = fst (snd out)
   in snd (snd out) = snd (attempts fetch endpoint fetchOpts w (st portals))
      \<and> map fst tr = take (length tr) (st portals)
      \<and> (\<forall>a \<in> set (butlast tr). \<not> accepted (snd a))
      \<and> (succeeded tr \<longrightarrow>
            success r \<and> portal r = Some (fst (last tr))
            \<and> Fulfilled (the (response r)) = snd (last tr) \<and> response r \<noteq> None
            \<and> portalsFailed r = map fst (butlast tr)
            \<and> responsesFailed r = map snd (butlast tr)
            \<and> logs r = map (failureLog endpoint) (butlast tr)
            \<and> remainingPortals r = Some portals
            \<and> st' portals = drop (length tr) (st portals))
      \<and> (\<not> succeeded tr \<longrightarrow>
            \<not> success r \<and> portal r = None \<and> response r = None
            \<and> portalsFailed r = st portals \<and> map fst tr = st portals
            \<and> responsesFailed r = map snd tr
            \<and> logs r = map (failureLog endpoint) tr
                  @ [LogAllPortalsTried endpoint fetchOpts [] (st portals) (map snd tr)
                       (map (failureLog endpoint) tr)]
            \<and> remainingPortals r = None
            \<and> st' portals = [])"
proof -
  let ?tr = "fst (attempts fetch endpoint fetchOpts w (st portals))"
  have ok: "succeeded ?tr \<Longrightarrow>
              Fulfilled (the (case snd (last ?tr) of Fulfilled x \<Rightarrow> Some x | Rejected e \<Rightarrow> None))
                = snd (last ?tr)
              \<and> (case snd (last ?tr) of Fulfilled x \<Rightarrow> Some x | Rejected e \<Rightarrow> None) \<noteq> None"
    using succeeded_last [of ?tr] by auto
  have ex: "\<not> succeeded ?tr \<Longrightarrow> map fst ?tr = st portals"
    by (rule attempts_exhausted)
  have len: "\<not> succeeded ?tr \<Longrightarrow> length ?tr = length (st portals)"
    using ex by (metis length_map)
  show ?thesis
    unfolding progressiveFetch_run Let_def
    using attempts_prefix [of fetch endpoint fetchOpts w "st portals"]
      attempts_failures [of fetch endpoint fetchOpts w "st portals"] ok ex len
    by (simp add: runResult_def del: attempts.simps)
qed

lemma attempts_thirdOk:
  "attempts thirdOk ''/x'' () () [''H1'', ''H2'', ''H3'']
     = ([(''H1'', Rejected ''connection refused''),
         (''H2'', Fulfilled \<lparr>status = Some (JNumber (Finite 500)), body = []\<rparr>),
         (''H3'', Fulfilled \<lparr>status = Some (JNumber (Finite 200)), body = ''genuine''\<rparr>)], ())"
  by (simp add: thirdOk_def accepted_def acceptedStatus_def)

lemma attempts_neverOk:
  "attempts neverOk ''/x'' () () [''H1'', ''H2'', ''H3'']
     = ([(''H1'', Rejected ''connection refused''),
         (''H2'', Fulfilled \<lparr>status = Some (JNumber (Finite 500)), body = []\<rparr>),
         (''H3'', Fulfilled \<lparr>status = None, body = []\<rparr>)], ())"
  by (simp add: neverOk_def accepted_def acceptedStatus_def)

lemma attempts_nanStatus:
  "attempts nanStatus ''/x'' () () [''H1'', ''H2'', ''H3'']
     = ([(''H1'', Fulfilled \<lparr>status = Some (JNumber NaN), body = []\<rparr>)], ())"
  by (simp add: nanStatus_def accepted_def acceptedStatus_def)

lemma attempts_alwaysOk:
  "attempts alwaysOk ''/x'' () () [''H1'', ''H2'', ''H3'']
     = ([(''H1'', Fulfilled \<lparr>status = Some (JNumber (Finite 200)), body = ''forged''\<rparr>)], ())"
  by (simp add: alwaysOk_def accepted_def acceptedStatus_def)

text \<open>
  The two scenarios of the specification: a transport error, a status 500 and then a
  status 200; and three failing hosts. Then a first host that answers with the status
  NaN.
\<close>

theorem progressive_fetch_in_order_witness:
  "success (fst (progressiveFetch thirdOk ''/x'' () 0 (threeHosts, ())))
   \<and> portal (fst (progressiveFetch thirdOk ''/x'' () 0 (threeHosts, ()))) = Some ''H3''
   \<and> portalsFailed (fst (progressiveFetch thirdOk ''/x'' () 0 (threeHosts, ()))) = [''H1'', ''H2'']
   \<and> fst (snd (progressiveFetch thirdOk ''/x'' () 0 (threeHosts, ()))) 0 = []
   \<and> \<not> success (fst (progressiveFetch neverOk ''/x'' () 0 (threeHosts, ())))
   \<and> portalsFailed (fst (progressiveFetch neverOk ''/x'' () 0 (threeHosts, ())))
       = [''H1'', ''H2'', ''H3'']
   \<and> remainingPortals (fst (progressiveFetch neverOk ''/x'' () 0 (threeHosts, ()))) = None
   \<and> success (fst (progressiveFetch nanStatus ''/x'' () 0 (threeHosts, ())))
   \<and> portal (fst (progressiveFetch nanStatus ''/x'' () 0 (threeHosts, ()))) = Some ''H1''
   \<and> portalsFailed (fst (progressiveFetch nanStatus ''/x'' () 0 (threeHosts, ()))) = []"
  using progressive_fetch_in_order [of thirdOk "''/x''" "()" "()" threeHosts 0]
    progressive_fetch_in_order [of neverOk "''/x''" "()" "()" threeHosts 0]
    progressive_fetch_in_order [of nanStatus "''/x''" "()" "()" threeHosts 0]
  by (simp add: Let_def threeHosts_def attempts_thirdOk attempts_neverOk attempts_nanStatus
      succeeded_def accepted_def acceptedStatus_def del: attempts.simps)

text \<open>
  C4, as the claim states it: an empty list of remaining hosts after exhaustion. The
  result of three failed hosts has no list there at all.
\<close>

theorem exhausted_remaining_is_null:
  "\<not> success (fst (progressiveFetch neverOk ''/x'' () 0 (threeHosts, ())))
   \<and> remainingPortals (fst (progressiveFetch neverOk ''/x'' () 0 (threeHosts, ()))) = None"
  by (simp add: progressiveFetch_run Let_def threeHosts_def attempts_neverOk runResult_def
      succeeded_def accepted_def acceptedStatus_def del: attempts.simps)

text \<open>
  C1, as the code has it. This \<^verbatim>\<open>progressiveFetch\<close> takes no verification function.
  It resolves with success exactly when some host, tried in order, answers with a
  status that is a number and is neither below 200 nor at least 300: a finite number
  from 200 up to 300, or NaN. The response it returns is the first such answer;
  nothing else about the response is checked.
\<close>

theorem success_is_first_accepted_status:
  "let tr = fst (attempts fetch endpoint fetchOpts w (st portals));
       r = fst (progressiveFetch fetch endpoint fetchOpts portals (st, w))
   in success r = succeeded tr
      \<and> (\<forall>a \<in> set (butlast tr). \<not> accepted (snd a))
      \<and> (success r \<longrightarrow>
            (\<exists>resp x. response r = Some resp \<and> snd (last tr) = Fulfilled resp
               \<and> status resp = Some (JNumber x)
               \<and> (x = NaN \<or> (\<exists>q. x = Finite q \<and> 200 \<le> q \<and> q < 300))))"
proof -
  let ?tr = "fst (attempts fetch endpoint fetchOpts w (st portals))"
  have "succeeded ?tr \<Longrightarrow>
          \<exists>resp x. (case snd (last ?tr) of Fulfilled y \<Rightarrow> Some y | Rejected e \<Rightarrow> None) = Some resp
            \<and> snd (last ?tr) = Fulfilled resp \<and> status resp = Some (JNumber x)
            \<and> (x = NaN \<or> (\<exists>q. x = Finite q \<and> 200 \<le> q \<and> q < 300))"
    using succeeded_last [of ?tr]
    by (auto simp add: acceptedStatus_iff)
  then show ?thesis
    unfolding progressiveFetch_run Let_def
    using attempts_failures [of fetch endpoint fetchOpts w "st portals"]
    by (simp add: runResult_def del: attempts.simps)
qed

text \<open>
  A status 200 with a forged body, and a status NaN: both resolve with success on the
  first host.
\<close>

theorem success_is_first_accepted_status_witness:
  "success (fst (progressiveFetch alwaysOk ''/x'' () 0 (threeHosts, ())))
   \<and> response (fst (progressiveFetch alwaysOk ''/x'' () 0 (threeHosts, ())))
       = Some \<lparr>status = Some (JNumber (Finite 200)), body = ''forged''\<rparr>
   \<and> success (fst (progressiveFetch nanStatus ''/x'' () 0 (threeHosts, ())))
   \<and> response (fst (progressiveFetch nanStatus ''/x'' () 0 (threeHosts, ())))
       = Some \<lparr>status = Some (JNumber NaN), body = []\<rparr>"
  using success_is_first_accepted_status [of alwaysOk "''/x''" "()" "()" threeHosts 0]
    success_is_first_accepted_status [of nanStatus "''/x''" "()" "()" threeHosts 0]
  by (simp add: Let_def threeHosts_def attempts_alwaysOk attempts_nanStatus succeeded_def
      accepted_def acceptedStatus_def del: attempts.simps)

text \<open>
  C1, as the claim states it. A host answers with status 200 and a forged body that
  the verification function of the caller rejects; the operation resolves with
  success and that response.
\<close>

theorem unverified_response_accepted:
  "success (fst (progressiveFetch alwaysOk ''/x'' () 0 (threeHosts, ())))
   \<and> response (fst (progressiveFetch alwaysOk ''/x'' () 0 (threeHosts, ())))
       = Some \<lparr>status = Some (JNumber (Finite 200)), body = ''forged''\<rparr>
   \<and> verifyBody \<lparr>status = Some (JNumber (Finite 200)), body = ''forged''\<rparr> \<noteq> None"
  by (simp add: progressiveFetch_run Let_def threeHosts_def attempts_alwaysOk runResult_def
      succeeded_def accepted_def acceptedStatus_def verifyBody_def del: attempts.simps)

text \<open>
  C9. The midstate holds the array of the caller itself, and \<^verbatim>\<open>shift\<close> removes each
  host that is tried from it: after a success on the first of three hosts the array of
  the caller holds the other two, and after three failures it is empty.
\<close>

theorem caller_array_consumed:
  "threeHosts 0 = [''H1'', ''H2'', ''H3'']
   \<and> fst (snd (progressiveFetch alwaysOk ''/x'' () 0 (threeHosts, ()))) 0 = [''H2'', ''H3'']
   \<and> fst (snd (progressiveFetch neverOk ''/x'' () 0 (threeHosts, ()))) 0 = []"
  by (simp add: progressiveFetch_run Let_def threeHosts_def attempts_alwaysOk attempts_neverOk
      del: attempts.simps)

end
